theory Spec2Isabelle
  imports Complex_Main
begin

section \<open>Orders as the point-of-sale screens see them\<close>

text \<open>
  The kitchen display (\<^verbatim>\<open>KitchenDisplayPage\<close>) and the staff screen
  (\<^verbatim>\<open>StaffOrdersPage\<close>) declare the same \<^verbatim>\<open>Order\<close> and \<^verbatim>\<open>OrderItem\<close>
  interfaces. A number that arrives in a payload is only stored and shown on these
  screens, never calculated with: it is a real. A quantity is an integer, a timestamp
  a number of milliseconds. The price of a cart line on the customer's page is the
  result of JavaScript arithmetic and has the open type \<open>'n\<close> (see the menu page);
  the lines of an order on these screens are payload data. The field \<^verbatim>\<open>id\<close> is
  called \<open>order_id\<close> here, and \<open>updated_at\<close> is the column of the row that a change
  payload carries.
\<close>

datatype order_status = Pending | Confirmed | Preparing | Ready | Completed | Cancelled

datatype service_type = DineIn | Pickup | Delivery

record 'n cart_item =
  menu_id :: string
  name :: string
  nameEn :: "string option"
  price :: 'n
  quantity :: int
  selectedMeat :: "string option"
  selectedAddOns :: "string list option"
  notes_item :: "string option"

record pos_order =
  order_id :: string
  table_no :: "string option"
  items :: "real cart_item list"
  status :: order_status
  service_type :: service_type
  special_instructions :: "string option"
  created_at :: nat
  customer_name :: "string option"
  total_price :: real
  updated_at :: nat

text \<open>
  A \<^verbatim>\<open>postgres_changes\<close> payload: \<^verbatim>\<open>eventType\<close> with the new row, or for a
  deletion the id of the old row.
\<close>

datatype change_event = INSERT pos_order | UPDATE pos_order | DELETE string

subsection \<open>Alerts\<close>

text \<open>
  What one call of \<^verbatim>\<open>playNotification\<close> does to the device: the mp3 of the kitchen
  display, oscillator tones of the Web Audio fallback, a vibration pattern. The record
  \<open>device\<close> holds the two user switches and what the browser offers.
\<close>

datatype alert_type = OrderAlert | RequestAlert

datatype effect = Mp3 | Tone nat | Vibrate "nat list"

record device =
  soundEnabled :: bool
  vibrationEnabled :: bool
  hasVibrate :: bool
  hasAudioContext :: bool
  mp3Loaded :: bool
  mp3PlayOk :: bool

definition staff_playWebAudioNotification :: "device \<Rightarrow> alert_type \<Rightarrow> effect list" where
  "staff_playWebAudioNotification dev ty =
     (if hasAudioContext dev
      then map Tone (if ty = RequestAlert then [600, 800, 600, 800] else [800, 1000])
      else [])"

definition staff_playNotification :: "device \<Rightarrow> alert_type \<Rightarrow> effect list" where
  "staff_playNotification dev ty =
     (if soundEnabled dev then staff_playWebAudioNotification dev ty else []) @
     (if vibrationEnabled dev \<and> hasVibrate dev
      then [Vibrate (if ty = RequestAlert then [300, 100, 300, 100, 300] else [200, 100, 200])]
      else [])"

definition kitchen_playWebAudioNotification :: "device \<Rightarrow> effect list" where
  "kitchen_playWebAudioNotification dev =
     (if hasAudioContext dev then [Tone 800, Tone 1000] else [])"

definition kitchen_playNotification :: "device \<Rightarrow> effect list" where
  "kitchen_playNotification dev =
     (if soundEnabled dev
      then (if mp3Loaded dev
            then (if mp3PlayOk dev then [Mp3] else kitchen_playWebAudioNotification dev)
            else kitchen_playWebAudioNotification dev)
      else []) @
     (if vibrationEnabled dev \<and> hasVibrate dev then [Vibrate [200, 100, 200]] else [])"

subsection \<open>The local view and the change handlers\<close>

text \<open>
  The React state \<^verbatim>\<open>orders\<close> of a screen, together with the trace of the
  \<^verbatim>\<open>playNotification\<close> calls made so far: one entry per call, with the pattern asked
  for and the effects it had on the device.
\<close>

record pos_view =
  orders :: "pos_order list"
  alerts :: "(alert_type \<times> effect list) list"

text \<open>The callback of the channel \<^verbatim>\<open>staff-orders\<close>.\<close>

fun staff_onOrderChange :: "device \<Rightarrow> change_event \<Rightarrow> pos_view \<Rightarrow> pos_view" where
  "staff_onOrderChange dev (INSERT newOrder) v =
     v\<lparr>orders := newOrder # orders v,
       alerts := alerts v @ [(OrderAlert, staff_playNotification dev OrderAlert)]\<rparr>"
| "staff_onOrderChange dev (UPDATE newOrder) v =
     (if status newOrder \<in> set [Completed, Cancelled]
      then v\<lparr>orders := filter (\<lambda>r. order_id r \<noteq> order_id newOrder) (orders v)\<rparr>
      else v\<lparr>orders := map (\<lambda>order. if order_id order = order_id newOrder then newOrder else order)
                             (orders v)\<rparr>)"
| "staff_onOrderChange dev (DELETE old_id) v =
     v\<lparr>orders := filter (\<lambda>order. order_id order \<noteq> old_id) (orders v)\<rparr>"

text \<open>The callback of the channel \<^verbatim>\<open>kitchen-orders\<close>.\<close>

fun kitchen_onOrderChange :: "device \<Rightarrow> change_event \<Rightarrow> pos_view \<Rightarrow> pos_view" where
  "kitchen_onOrderChange dev (INSERT newOrder) v =
     v\<lparr>orders := newOrder # orders v,
       alerts := alerts v @ [(OrderAlert, kitchen_playNotification dev)]\<rparr>"
| "kitchen_onOrderChange dev (UPDATE newOrder) v =
     v\<lparr>orders := filter (\<lambda>r. status r \<notin> set [Completed, Cancelled])
                       (map (\<lambda>order. if order_id order = order_id newOrder then newOrder else order)
                            (orders v))\<rparr>"
| "kitchen_onOrderChange dev (DELETE old_id) v =
     v\<lparr>orders := filter (\<lambda>order. order_id order \<noteq> old_id) (orders v)\<rparr>"

text \<open>
  \<^verbatim>\<open>updateOrderStatus\<close> sends the PUT and looks only at the answer: \<open>HttpOk\<close> is
  \<^verbatim>\<open>response.ok\<close>, \<open>HttpError\<close> any other status, \<open>NetworkFailure\<close> the rejected
  promise that the \<^verbatim>\<open>catch\<close> logs. Both screens have the same body.
\<close>

datatype http_result = HttpOk | HttpError | NetworkFailure

definition staff_updateOrderStatus ::
    "http_result \<Rightarrow> string \<Rightarrow> order_status \<Rightarrow> pos_view \<Rightarrow> pos_view" where
  "staff_updateOrderStatus response orderId newStatus v =
     (if response = HttpOk
      then (if newStatus \<in> set [Completed, Cancelled]
            then v\<lparr>orders := filter (\<lambda>r. order_id r \<noteq> orderId) (orders v)\<rparr>
            else v)
      else v)"

definition kitchen_updateOrderStatus ::
    "http_result \<Rightarrow> string \<Rightarrow> order_status \<Rightarrow> pos_view \<Rightarrow> pos_view" where
  "kitchen_updateOrderStatus response orderId newStatus v =
     (if response = HttpOk
      then (if newStatus = Completed \<or> newStatus = Cancelled
            then v\<lparr>orders := filter (\<lambda>r. order_id r \<noteq> orderId) (orders v)\<rparr>
            else v)
      else v)"

subsection \<open>The order-status page\<close>

text \<open>
  \<^verbatim>\<open>fetchOrder\<close> of \<^verbatim>\<open>OrderStatusPage\<close> asks the server for one order by its id.
  The answer of the server is the input here: a 404, another failure status, a JSON
  body with \<^verbatim>\<open>success\<close> and \<^verbatim>\<open>order\<close>, or a rejected request with its message
  (empty when the error has none). The estimate shown is either a number of minutes
  or a fixed label.
\<close>

datatype fetch_response =
  Resp404 | RespOther | RespJson bool pos_order | FetchThrew string

datatype estimate = AboutMinutes int | Label string

record status_page =
  sp_order :: "pos_order option"
  sp_loading :: bool
  sp_error :: string
  estimatedTime :: estimate

definition calculateEstimatedTime :: "int \<Rightarrow> pos_order \<Rightarrow> status_page \<Rightarrow> status_page" where
  "calculateEstimatedTime now ord p =
     (let elapsed = (now - int (created_at ord)) div (1000 * 60) in
      case status ord of
        Ready \<Rightarrow> p\<lparr>estimatedTime := Label ''Ready now!''\<rparr>
      | Completed \<Rightarrow> p\<lparr>estimatedTime := Label ''Completed''\<rparr>
      | Cancelled \<Rightarrow> p\<lparr>estimatedTime := Label ''Cancelled''\<rparr>
      | st \<Rightarrow>
          (let estimatedMinutes =
                 (if st = Pending then 15 - elapsed
                  else if st = Preparing then 10 - elapsed
                  else 0)
           in if estimatedMinutes \<le> 0 then p\<lparr>estimatedTime := Label ''Almost ready!''\<rparr>
              else p\<lparr>estimatedTime := AboutMinutes estimatedMinutes\<rparr>))"

definition fetchOrder :: "int \<Rightarrow> fetch_response \<Rightarrow> status_page \<Rightarrow> status_page" where
  "fetchOrder now response p =
     (case response of
        Resp404 \<Rightarrow> p\<lparr>sp_error := ''Order not found'', sp_loading := False\<rparr>
      | RespOther \<Rightarrow> p\<lparr>sp_error := ''Failed to fetch order'', sp_loading := False\<rparr>
      | RespJson success ord \<Rightarrow>
          (if success
           then (calculateEstimatedTime now ord (p\<lparr>sp_order := Some ord\<rparr>))\<lparr>sp_loading := False\<rparr>
           else p\<lparr>sp_error := ''Failed to fetch order'', sp_loading := False\<rparr>)
      | FetchThrew msg \<Rightarrow>
          p\<lparr>sp_error := (if msg = [] then ''Failed to fetch order'' else msg),
            sp_loading := False\<rparr>)"

definition page0 :: status_page where
  "page0 = \<lparr>sp_order = None, sp_loading = True, sp_error = [], estimatedTime = Label []\<rparr>"

subsection \<open>The status buttons of the two screens\<close>

text \<open>
  Each order card renders its action buttons from the order's status; a button calls
  \<^verbatim>\<open>updateOrderStatus(order.id, target)\<close>. The lists below are the targets of the
  buttons rendered for a status, in the order of the JSX.
\<close>

definition kitchen_actions :: "order_status \<Rightarrow> order_status list" where
  "kitchen_actions s =
     (if s = Pending then [Confirmed] else []) @
     (if s = Confirmed then [Preparing] else []) @
     (if s = Preparing then [Ready] else []) @
     (if s = Ready then [Completed] else [])"

definition staff_actions :: "order_status \<Rightarrow> order_status list" where
  "staff_actions s =
     (if s = Ready then [Completed] else []) @
     (if s \<noteq> Ready \<and> s \<noteq> Completed then [Completed] else [])"

text \<open>
  Modelled from the spec: the transition graph of section 4.1, which the server
  enforces and no source file of the screens contains. \<open>forward_step\<close> is the chain
  pending, confirmed, preparing, ready, completed.
\<close>

definition forward_step :: "order_status \<Rightarrow> order_status option" where
  "forward_step s =
     (case s of Pending \<Rightarrow> Some Confirmed | Confirmed \<Rightarrow> Some Preparing
      | Preparing \<Rightarrow> Some Ready | Ready \<Rightarrow> Some Completed
      | Completed \<Rightarrow> None | Cancelled \<Rightarrow> None)"

text \<open>
  Modelled from the spec: the edges of that graph, the forward steps together with
  the edge to cancelled from pending, confirmed, preparing and ready.
\<close>

definition graph_edge :: "order_status \<Rightarrow> order_status \<Rightarrow> bool" where
  "graph_edge s t =
     (forward_step s = Some t \<or>
      (t = Cancelled \<and> s \<in> set [Pending, Confirmed, Preparing, Ready]))"

section \<open>The customer's menu page\<close>

text \<open>
  \<^verbatim>\<open>RestaurantMenuPage\<close>: the cart, the service type with the customer's details,
  the delivery fee and the order submission. The fields of \<^verbatim>\<open>MenuItem\<close> carry the
  prefix \<open>m_\<close>, those of a meat or add-on entry \<open>opt_\<close>, those of
  \<^verbatim>\<open>customerDetails\<close> \<open>cd_\<close>, those of the delivery calculation \<open>dc_\<close>.

  The numbers this page calculates with (prices, fees, totals) are IEEE doubles in the
  browser. Their type is left open here as \<open>'n\<close>, and the operations on them are
  the fields of a record \<open>js_arith\<close> that every calculating function takes:
  \<^verbatim>\<open>parseFloat\<close>, the sum of two numbers, the product of a price and a quantity,
  and the literal \<^verbatim>\<open>0\<close>. Nothing is assumed about them: the sum need not be exact
  or associative, and \<^verbatim>\<open>parseFloat\<close> may yield any value, \<^verbatim>\<open>NaN\<close> included.

  The text a customer types is a JavaScript string, modelled as the list of its
  UTF-16 code units (\<open>jstring\<close>), so that \<^verbatim>\<open>trim\<close> sees every white space
  character of the language.
\<close>

type_synonym jstring = "nat list"

record 'n js_arith =
  parseFloat :: "string \<Rightarrow> 'n"
  num_plus :: "'n \<Rightarrow> 'n \<Rightarrow> 'n"
  num_times :: "'n \<Rightarrow> int \<Rightarrow> 'n"
  num_zero :: 'n

record menu_option =
  opt_name :: string
  opt_nameEn :: "string option"
  opt_price :: string

record menu_item =
  m_menu_id :: string
  m_name :: string
  m_nameEn :: "string option"
  m_description :: "string option"
  m_price :: string
  m_category :: string
  m_is_best_seller :: "bool option"
  meats :: "menu_option list option"
  addOns :: "menu_option list option"
  originalName :: "string option"

record delivery_rate =
  rate_id :: string
  distance_km :: real
  rate_price :: real

record customer_details =
  cd_table_no :: jstring
  cd_name :: jstring
  cd_phone :: jstring
  cd_pickup_time :: jstring
  cd_address :: jstring

record restaurant_location =
  latitude :: "real option"
  longitude :: "real option"

record 'n delivery_calculation =
  dc_success :: bool
  dc_distance_km :: "real option"
  dc_distance_text :: "string option"
  dc_duration_minutes :: "real option"
  dc_duration_text :: "string option"
  dc_delivery_fee :: "'n option"
  dc_is_within_range :: "bool option"
  dc_formatted_address :: "string option"
  dc_message :: "string option"
  dc_error :: "string option"

record 'n menu_page =
  restaurant_id :: string
  restaurantId :: string
  originalMenus :: "menu_item list"
  cart :: "'n cart_item list"
  showCart :: bool
  showItemModal :: bool
  serviceType :: service_type
  customerDetails :: customer_details
  deliveryRates :: "delivery_rate list"
  selectedDeliveryFee :: 'n
  restaurantLocation :: restaurant_location
  calculatingDelivery :: bool
  deliveryCalculation :: "'n delivery_calculation option"

subsection \<open>JavaScript helpers\<close>

text \<open>
  \<open>truthy_str\<close> and \<open>truthy_num\<close> are the truth value JavaScript gives an optional
  string (absent and empty are false) and an optional number (\<^verbatim>\<open>null\<close> and zero
  are false; \<open>None\<close> is \<^verbatim>\<open>null\<close>); the coordinates of the restaurant are payload
  data. \<open>is_space\<close> holds of the code units that \<^verbatim>\<open>String.prototype.trim\<close>
  strips: the white space and the line terminators of ECMAScript (tab, line feed,
  vertical tab, form feed, carriage return, space, no-break space, U+1680, U+2000 to
  U+200A, U+2028, U+2029, U+202F, U+205F, U+3000 and U+FEFF). \<open>ascii\<close> gives the
  code units of an ASCII literal.
\<close>

definition truthy_str :: "string option \<Rightarrow> bool" where
  "truthy_str x = (case x of None \<Rightarrow> False | Some t \<Rightarrow> t \<noteq> [])"




definition ascii :: "string \<Rightarrow> jstring" where
  "ascii t = map of_char t"

subsection \<open>The cart\<close>

text \<open>
  The arithmetic is the parameter \<open>ar\<close>. The label of a meat or add-on entry is
  \<^verbatim>\<open>m.nameEn || m.name\<close>. \<open>meat_surcharge\<close> is the first conditional of
  \<^verbatim>\<open>addToCart\<close>, applied to the running total; \<open>addOns_surcharge\<close> is the second,
  with its \<^verbatim>\<open>forEach\<close>.
\<close>

definition opt_label :: "menu_option \<Rightarrow> string" where
  "opt_label m = (if truthy_str (opt_nameEn m) then the (opt_nameEn m) else opt_name m)"

definition meat_surcharge :: "'n js_arith \<Rightarrow> menu_item \<Rightarrow> string option \<Rightarrow> 'n \<Rightarrow> 'n" where
  "meat_surcharge ar menu selMeat totalPrice =
     (if truthy_str selMeat
      then (case meats menu of
              None \<Rightarrow> totalPrice
            | Some ms \<Rightarrow>
                (case find (\<lambda>m. opt_label m = the selMeat) ms of
                   None \<Rightarrow> totalPrice
                 | Some meat \<Rightarrow>
                     (if opt_price meat \<noteq> ''0'' \<and> opt_price meat \<noteq> ''free''
                      then num_plus ar totalPrice (parseFloat ar (opt_price meat))
                      else totalPrice)))
      else totalPrice)"

definition addOns_surcharge ::
    "'n js_arith \<Rightarrow> menu_item \<Rightarrow> string list option \<Rightarrow> 'n \<Rightarrow> 'n" where
  "addOns_surcharge ar menu selAddOns totalPrice =
     (case selAddOns of
        None \<Rightarrow> totalPrice
      | Some names \<Rightarrow>
          (case addOns menu of
             None \<Rightarrow> totalPrice
           | Some as \<Rightarrow>
               foldl (\<lambda>total addOnName.
                        (case find (\<lambda>a. opt_label a = addOnName) as of
                           None \<Rightarrow> total
                         | Some addOn \<Rightarrow> num_plus ar total (parseFloat ar (opt_price addOn))))
                     totalPrice names))"

definition addToCart ::
    "'n js_arith \<Rightarrow> menu_item \<Rightarrow> string option \<Rightarrow> string list option \<Rightarrow> string option \<Rightarrow>
     'n menu_page \<Rightarrow> 'n menu_page" where
  "addToCart ar menu selMeat selAddOns nts st =
     (let basePrice = parseFloat ar (m_price menu);
          totalPrice = addOns_surcharge ar menu selAddOns
                         (meat_surcharge ar menu selMeat basePrice);
          originalMenu = find (\<lambda>m. m_menu_id m = m_menu_id menu) (originalMenus st);
          fallbackName = (if truthy_str (originalName menu) then the (originalName menu)
                          else m_name menu);
          originalName_v = (case originalMenu of
                            None \<Rightarrow> fallbackName
                          | Some om \<Rightarrow> if m_name om \<noteq> [] then m_name om else fallbackName);
          originalNameEn_v = (case originalMenu of
                              None \<Rightarrow> m_nameEn menu
                            | Some om \<Rightarrow> if truthy_str (m_nameEn om) then m_nameEn om
                                         else m_nameEn menu);
          cartItem = \<lparr>menu_id = m_menu_id menu, name = originalName_v, nameEn = originalNameEn_v,
                      price = totalPrice, quantity = 1, selectedMeat = selMeat,
                      selectedAddOns = selAddOns, notes_item = nts\<rparr>
      in st\<lparr>cart := cart st @ [cartItem], showItemModal := False, showCart := True\<rparr>)"

definition updateQuantity :: "string \<Rightarrow> int \<Rightarrow> 'n menu_page \<Rightarrow> 'n menu_page" where
  "updateQuantity menuId delta st =
     st\<lparr>cart := map (\<lambda>item. if menu_id item = menuId
                              then item\<lparr>quantity := max 1 (quantity item + delta)\<rparr>
                              else item)
                      (cart st)\<rparr>"

definition removeFromCart :: "string \<Rightarrow> 'n menu_page \<Rightarrow> 'n menu_page" where
  "removeFromCart menuId st = st\<lparr>cart := filter (\<lambda>item. menu_id item \<noteq> menuId) (cart st)\<rparr>"

definition getSubtotal :: "'n js_arith \<Rightarrow> 'n menu_page \<Rightarrow> 'n" where
  "getSubtotal ar st =
     foldl (\<lambda>sum item. num_plus ar sum (num_times ar (price item) (quantity item)))
           (num_zero ar) (cart st)"

definition getDeliveryFee :: "'n js_arith \<Rightarrow> 'n menu_page \<Rightarrow> 'n" where
  "getDeliveryFee ar st =
     (if serviceType st = Delivery then selectedDeliveryFee st else num_zero ar)"

definition getTotalPrice :: "'n js_arith \<Rightarrow> 'n menu_page \<Rightarrow> 'n" where
  "getTotalPrice ar st = num_plus ar (getSubtotal ar st) (getDeliveryFee ar st)"

subsection \<open>The delivery fee calculation\<close>







subsection \<open>Placing the order\<close>
















section \<open>Service requests and the staff session\<close>

subsection \<open>Updating a service request\<close>

text \<open>
  \<^verbatim>\<open>updateRequestStatus\<close> of the staff screen sends one update of the row with the
  given id. A field of the update whose value is \<^verbatim>\<open>undefined\<close> is \<open>None\<close>. The
  clock is read once for the stamp of the transition and once for \<^verbatim>\<open>updated_at\<close>.
  The fields \<^verbatim>\<open>status\<close> and \<^verbatim>\<open>updated_at\<close> of the update are \<open>upd_status\<close> and
  \<open>upd_updated_at\<close>; the fields of a request carry the prefix \<open>sr_\<close>.
\<close>

datatype request_status = ReqPending | Acknowledged | ReqCompleted

datatype request_type = call_waiter | request_sauce | request_water | request_bill | other

record service_request =
  sr_id :: string
  sr_table_no :: string
  sr_request_type :: request_type
  sr_message :: "string option"
  sr_status :: request_status
  sr_created_at :: nat

record pos_session =
  staffId :: string
  staffName :: string
  role :: string
  sess_restaurantId :: string
  restaurantName :: string
  restaurantSlug :: string
  primaryLanguage :: "string option"
  expires :: int

record request_update =
  upd_status :: request_status
  acknowledged_by :: "string option"
  acknowledged_at :: "int option"
  completed_at :: "int option"
  upd_updated_at :: int

datatype db_result = DbOk | DbError | DbThrew

definition request_update_of ::
    "pos_session option \<Rightarrow> request_status \<Rightarrow> int \<Rightarrow> int \<Rightarrow> request_update" where
  "request_update_of sess newStatus stamp now =
     \<lparr>upd_status = newStatus,
      acknowledged_by = (if newStatus = Acknowledged then map_option staffId sess else None),
      acknowledged_at = (if newStatus = Acknowledged then Some stamp else None),
      completed_at = (if newStatus = ReqCompleted then Some stamp else None),
      upd_updated_at = now\<rparr>"

definition updateRequestStatus ::
    "pos_session option \<Rightarrow> int \<Rightarrow> int \<Rightarrow> db_result \<Rightarrow> string \<Rightarrow> request_status \<Rightarrow>
     service_request list \<Rightarrow> (string \<times> request_update) \<times> service_request list" where
  "updateRequestStatus sess stamp now result requestId newStatus serviceRequests =
     ((requestId, request_update_of sess newStatus stamp now),
      (if result = DbOk \<and> newStatus = ReqCompleted
       then filter (\<lambda>r. sr_id r \<noteq> requestId) serviceRequests
       else serviceRequests))"

subsection \<open>Login and the session check of the screens\<close>

text \<open>
  \<^verbatim>\<open>handlePinSubmit\<close> of the login page, with the restaurant chosen in the step
  before, the PIN typed, the clock and the answer of \<^verbatim>\<open>/api/staff/verify-pin\<close>. On
  success it stores the session and leaves for the kitchen display or the staff
  screen; otherwise it shows an error and stores nothing.
\<close>

record selected_restaurant =
  sel_id :: string
  sel_name :: string
  sel_slug :: string
  sel_primaryLanguage :: "string option"

record staff_info =
  staff_id :: string
  staff_name :: string
  staff_role :: string

datatype verify_response = VerifyThrew | VerifyJson bool "staff_info option"

datatype route = LoginRoute | KitchenRoute | OrdersRoute

definition handlePinSubmit ::
    "int \<Rightarrow> selected_restaurant \<Rightarrow> string \<Rightarrow> verify_response \<Rightarrow> (pos_session \<times> route) option" where
  "handlePinSubmit now selectedRestaurant pin response =
     (if length pin \<noteq> 6 then None
      else
        (case response of
           VerifyThrew \<Rightarrow> None
         | VerifyJson success staff_opt \<Rightarrow>
             (case staff_opt of
                None \<Rightarrow> None
              | Some staff \<Rightarrow>
                  if success
                  then Some
                    (\<lparr>staffId = staff_id staff, staffName = staff_name staff,
                      role = staff_role staff,
                      sess_restaurantId = sel_id selectedRestaurant,
                      restaurantName = sel_name selectedRestaurant,
                      restaurantSlug = sel_slug selectedRestaurant,
                      primaryLanguage =
                        (if truthy_str (sel_primaryLanguage selectedRestaurant)
                         then sel_primaryLanguage selectedRestaurant else Some ''th''),
                      expires = now + (8 * 60 * 60 * 1000)\<rparr>,
                     if staff_role staff = ''chef'' then KitchenRoute else OrdersRoute)
                  else None)))"

text \<open>
  A screen: the item \<^verbatim>\<open>pos_session\<close> of the local storage, the React state
  \<^verbatim>\<open>session\<close>, the route shown and the local view. \<open>checkSession\<close> is the effect
  that runs when the screen is mounted; it is the same on both screens.
\<close>

record pos_page =
  stored_session :: "pos_session option"
  session :: "pos_session option"
  route :: route
  view :: pos_view

definition checkSession :: "int \<Rightarrow> pos_page \<Rightarrow> pos_page" where
  "checkSession now pg =
     (case stored_session pg of
        None \<Rightarrow> pg\<lparr>route := LoginRoute\<rparr>
      | Some parsedSession \<Rightarrow>
          if expires parsedSession < now
          then pg\<lparr>stored_session := None, route := LoginRoute\<rparr>
          else pg\<lparr>session := Some parsedSession\<rparr>)"

text \<open>
  The channels exist only while \<^verbatim>\<open>session?.restaurantId\<close> is set. An event that
  arrives at the time \<open>arrival\<close> runs the callback of the channel; the callback does
  not read the clock, so \<open>arrival\<close> is not used.
\<close>

definition subscribed :: "pos_page \<Rightarrow> bool" where
  "subscribed pg = (case session pg of None \<Rightarrow> False | Some s \<Rightarrow> sess_restaurantId s \<noteq> [])"

definition staff_page_event :: "device \<Rightarrow> int \<Rightarrow> change_event \<Rightarrow> pos_page \<Rightarrow> pos_page" where
  "staff_page_event dev arrival ev pg =
     (if subscribed pg then pg\<lparr>view := staff_onOrderChange dev ev (view pg)\<rparr> else pg)"

definition kitchen_page_event :: "device \<Rightarrow> int \<Rightarrow> change_event \<Rightarrow> pos_page \<Rightarrow> pos_page" where
  "kitchen_page_event dev arrival ev pg =
     (if subscribed pg then pg\<lparr>view := kitchen_onOrderChange dev ev (view pg)\<rparr> else pg)"

subsection \<open>Example data\<close>

definition dev0 :: device where
  "dev0 = \<lparr>soundEnabled = True, vibrationEnabled = True, hasVibrate = True,
            hasAudioContext = True, mp3Loaded = False, mp3PlayOk = False\<rparr>"

definition order_at :: "order_status \<Rightarrow> nat \<Rightarrow> pos_order" where
  "order_at s t =
     \<lparr>order_id = ''o1'', table_no = Some ''5'', items = [], status = s, service_type = DineIn,
      special_instructions = None, created_at = 0, customer_name = None, total_price = 20,
      updated_at = t\<rparr>"

definition view0 :: pos_view where
  "view0 = \<lparr>orders = [order_at Pending 0], alerts = []\<rparr>"

definition empty_view :: pos_view where
  "empty_view = \<lparr>orders = [], alerts = []\<rparr>"

definition cd0 :: customer_details where
  "cd0 = \<lparr>cd_table_no = ascii ''5'', cd_name = [], cd_phone = [], cd_pickup_time = [],
           cd_address = []\<rparr>"

text \<open>
  One arithmetic to run the examples with; the theorems hold for every arithmetic.
\<close>

definition ar0 :: "real js_arith" where
  "ar0 = \<lparr>parseFloat = (\<lambda>t. 12.5), num_plus = (\<lambda>a b. a + b),
           num_times = (\<lambda>p q. p * of_int q), num_zero = 0\<rparr>"

definition line_a :: "real cart_item" where
  "line_a = \<lparr>menu_id = ''m1'', name = ''Pad Thai'', nameEn = None, price = 12.5, quantity = 1,
              selectedMeat = Some ''Chicken'', selectedAddOns = None, notes_item = None\<rparr>"

definition line_b :: "real cart_item" where
  "line_b = \<lparr>menu_id = ''m1'', name = ''Pad Thai'', nameEn = None, price = 3.75, quantity = 2,
              selectedMeat = Some ''Prawn'', selectedAddOns = Some [''Egg''],
              notes_item = Some ''no peanuts''\<rparr>"

definition menu_m1 :: menu_item where
  "menu_m1 = \<lparr>m_menu_id = ''m1'', m_name = ''Pad Thai'', m_nameEn = None, m_description = None,
               m_price = ''12.50'', m_category = ''Noodles'', m_is_best_seller = None,
               meats = None, addOns = None, originalName = None\<rparr>"

definition page_dinein :: "real menu_page" where
  "page_dinein =
     \<lparr>restaurant_id = ''r1'', restaurantId = ''r1'', originalMenus = [],
      cart = [line_a, line_b], showCart = True, showItemModal = False,
      serviceType = DineIn, customerDetails = cd0, deliveryRates = [],
      selectedDeliveryFee = 0,
      restaurantLocation = \<lparr>latitude = None, longitude = None\<rparr>,
      calculatingDelivery = False, deliveryCalculation = None\<rparr>"




definition sess0 :: pos_session where
  "sess0 = \<lparr>staffId = ''s1'', staffName = ''Noi'', role = ''waiter'',
             sess_restaurantId = ''r1'', restaurantName = ''Thai'', restaurantSlug = ''thai'',
             primaryLanguage = Some ''th'', expires = 100\<rparr>"

definition pg0 :: pos_page where
  "pg0 = \<lparr>stored_session = Some sess0, session = None, route = OrdersRoute,
           view = empty_view\<rparr>"

definition sel0 :: selected_restaurant where
  "sel0 = \<lparr>sel_id = ''r1'', sel_name = ''Thai'', sel_slug = ''thai'',
            sel_primaryLanguage = None\<rparr>"

definition staff0 :: staff_info where
  "staff0 = \<lparr>staff_id = ''s1'', staff_name = ''Noi'', staff_role = ''chef''\<rparr>"

section \<open>Properties of the change handlers\<close>

lemma map_replace_twice:
  "order_id n1 = order_id n2 \<Longrightarrow>
   map (\<lambda>order. if order_id order = order_id n1 then n1 else order)
       (map (\<lambda>order. if order_id order = order_id n2 then n2 else order) xs) =
   map (\<lambda>order. if order_id order = order_id n1 then n1 else order) xs"
  by (induction xs) auto

lemma staff_update_overwrites:
  "order_id n1 = order_id n2 \<Longrightarrow> status n2 \<notin> set [Completed, Cancelled] \<Longrightarrow>
   staff_onOrderChange dev (UPDATE n1) (staff_onOrderChange dev (UPDATE n2) v) =
   staff_onOrderChange dev (UPDATE n1) v"
proof (cases "status n1 \<in> set [Completed, Cancelled]")
  case True
  assume a: "order_id n1 = order_id n2" "status n2 \<notin> set [Completed, Cancelled]"
  have "filter (\<lambda>r. order_id r \<noteq> order_id n2)
          (map (\<lambda>order. if order_id order = order_id n2 then n2 else order) xs) =
        filter (\<lambda>r. order_id r \<noteq> order_id n2) xs" for xs
    by (induction xs) auto
  with True a show ?thesis by simp
next
  case False
  assume a: "order_id n1 = order_id n2" "status n2 \<notin> set [Completed, Cancelled]"
  with False map_replace_twice [OF a(1)] show ?thesis by simp
qed

lemma kitchen_update_overwrites:
  "order_id n1 = order_id n2 \<Longrightarrow> status n2 \<notin> set [Completed, Cancelled] \<Longrightarrow>
   kitchen_onOrderChange dev (UPDATE n1) (kitchen_onOrderChange dev (UPDATE n2) v) =
   kitchen_onOrderChange dev (UPDATE n1) v"
proof -
  assume a: "order_id n1 = order_id n2" "status n2 \<notin> set [Completed, Cancelled]"
  have "filter (\<lambda>r. status r \<notin> set [Completed, Cancelled])
          (map (\<lambda>order. if order_id order = order_id n1 then n1 else order)
            (filter (\<lambda>r. status r \<notin> set [Completed, Cancelled])
              (map (\<lambda>order. if order_id order = order_id n2 then n2 else order) xs))) =
        filter (\<lambda>r. status r \<notin> set [Completed, Cancelled])
          (map (\<lambda>order. if order_id order = order_id n1 then n1 else order) xs)" for xs
    using a by (induction xs) auto
  then show ?thesis by simp
qed

lemma staff_update_idem:
  "staff_onOrderChange dev (UPDATE n) (staff_onOrderChange dev (UPDATE n) v) =
   staff_onOrderChange dev (UPDATE n) v"
proof (cases "status n \<in> set [Completed, Cancelled]")
  case True
  then show ?thesis by simp
next
  case False
  with map_replace_twice [of n n] show ?thesis by simp
qed

lemma kitchen_update_idem:
  "kitchen_onOrderChange dev (UPDATE n) (kitchen_onOrderChange dev (UPDATE n) v) =
   kitchen_onOrderChange dev (UPDATE n) v"
proof -
  have "filter (\<lambda>r. status r \<notin> set [Completed, Cancelled])
          (map (\<lambda>order. if order_id order = order_id n then n else order)
            (filter (\<lambda>r. status r \<notin> set [Completed, Cancelled])
              (map (\<lambda>order. if order_id order = order_id n then n else order) xs))) =
        filter (\<lambda>r. status r \<notin> set [Completed, Cancelled])
          (map (\<lambda>order. if order_id order = order_id n then n else order) xs)" for xs
    by (induction xs) auto
  then show ?thesis by simp
qed

lemma staff_update_holds_payload:
  "status n \<notin> set [Completed, Cancelled] \<Longrightarrow>
   r \<in> set (orders (staff_onOrderChange dev (UPDATE n) v)) \<Longrightarrow>
   order_id r = order_id n \<Longrightarrow> r = n"
  by (auto split: if_splits)

lemma kitchen_update_holds_payload:
  "r \<in> set (orders (kitchen_onOrderChange dev (UPDATE n) v)) \<Longrightarrow>
   order_id r = order_id n \<Longrightarrow> r = n"
  by (auto split: if_splits)

lemma staff_update_keeps_entry:
  "status n \<notin> set [Completed, Cancelled] \<Longrightarrow> order_id n \<in> order_id ` set (orders v) \<Longrightarrow>
   n \<in> set (orders (staff_onOrderChange dev (UPDATE n) v))"
  by (auto simp: image_iff)

lemma kitchen_update_keeps_entry:
  "status n \<notin> set [Completed, Cancelled] \<Longrightarrow> order_id n \<in> order_id ` set (orders v) \<Longrightarrow>
   n \<in> set (orders (kitchen_onOrderChange dev (UPDATE n) v))"
  by (auto simp: image_iff)

lemma map_replace_absent:
  "\<forall>x \<in> set xs. order_id x \<noteq> order_id n \<Longrightarrow>
   map (\<lambda>order. if order_id order = order_id n then n else order) xs = xs"
  by (induction xs) auto

lemma staff_update_after_terminal:
  assumes "order_id n1 = order_id n2" and "status n2 \<in> set [Completed, Cancelled]"
  shows "staff_onOrderChange dev (UPDATE n1) (staff_onOrderChange dev (UPDATE n2) v) =
         staff_onOrderChange dev (UPDATE n2) v"
proof -
  let ?ys = "filter (\<lambda>r. order_id r \<noteq> order_id n2) (orders v)"
  have ys: "orders (staff_onOrderChange dev (UPDATE n2) v) = ?ys"
    using assms(2) by simp
  have m: "map (\<lambda>order. if order_id order = order_id n1 then n1 else order) ?ys = ?ys"
    by (rule map_replace_absent) (simp add: assms(1))
  show ?thesis
  proof (cases "status n1 \<in> set [Completed, Cancelled]")
    case True
    with assms show ?thesis by simp
  next
    case False
    with assms m show ?thesis by simp
  qed
qed

lemma kitchen_update_after_terminal:
  assumes "order_id n1 = order_id n2" and "status n2 \<in> set [Completed, Cancelled]"
  shows "kitchen_onOrderChange dev (UPDATE n1) (kitchen_onOrderChange dev (UPDATE n2) v) =
         kitchen_onOrderChange dev (UPDATE n2) v"
proof -
  have "filter (\<lambda>r. status r \<notin> set [Completed, Cancelled])
          (map (\<lambda>order. if order_id order = order_id n1 then n1 else order)
            (filter (\<lambda>r. status r \<notin> set [Completed, Cancelled])
              (map (\<lambda>order. if order_id order = order_id n2 then n2 else order) xs))) =
        filter (\<lambda>r. status r \<notin> set [Completed, Cancelled])
          (map (\<lambda>order. if order_id order = order_id n2 then n2 else order) xs)" for xs
    using assms by (induction xs) auto
  then show ?thesis by simp
qed

text \<open>
  C1 (as the code has it). The update handlers never read \<open>updated_at\<close>: of two update
  events for the same order id, applied one after the other, the timestamps play no
  part in the result. If the event applied first does not carry a terminal status,
  the view is the one that the second event alone gives (the last arrival wins); if
  the order is held locally and the second payload is not terminal either, the view
  then holds the second payload and nothing else under that id. So applying
  (T2, then T1) leaves a held order in the T1 state, on the staff screen and on the
  kitchen display. If the event applied first carries a terminal status, the order is
  removed and the second event does not bring it back.
\<close>

theorem C1_update_last_arrival_wins:
  assumes "order_id n1 = order_id n2"
  shows "(status n2 \<notin> set [Completed, Cancelled] \<longrightarrow>
            staff_onOrderChange dev (UPDATE n1) (staff_onOrderChange dev (UPDATE n2) v) =
              staff_onOrderChange dev (UPDATE n1) v \<and>
            kitchen_onOrderChange dev (UPDATE n1) (kitchen_onOrderChange dev (UPDATE n2) v) =
              kitchen_onOrderChange dev (UPDATE n1) v) \<and>
         (status n2 \<in> set [Completed, Cancelled] \<longrightarrow>
            staff_onOrderChange dev (UPDATE n1) (staff_onOrderChange dev (UPDATE n2) v) =
              staff_onOrderChange dev (UPDATE n2) v \<and>
            kitchen_onOrderChange dev (UPDATE n1) (kitchen_onOrderChange dev (UPDATE n2) v) =
              kitchen_onOrderChange dev (UPDATE n2) v) \<and>
         (status n2 \<notin> set [Completed, Cancelled] \<and> status n1 \<notin> set [Completed, Cancelled] \<and>
          order_id n1 \<in> order_id ` set (orders v) \<longrightarrow>
            n1 \<in> set (orders (staff_onOrderChange dev (UPDATE n1)
                                (staff_onOrderChange dev (UPDATE n2) v))) \<and>
            n1 \<in> set (orders (kitchen_onOrderChange dev (UPDATE n1)
                                (kitchen_onOrderChange dev (UPDATE n2) v))) \<and>
            (\<forall>r \<in> set (orders (staff_onOrderChange dev (UPDATE n1)
                                  (staff_onOrderChange dev (UPDATE n2) v))).
               order_id r = order_id n1 \<longrightarrow> r = n1) \<and>
            (\<forall>r \<in> set (orders (kitchen_onOrderChange dev (UPDATE n1)
                                  (kitchen_onOrderChange dev (UPDATE n2) v))).
               order_id r = order_id n1 \<longrightarrow> r = n1))"
proof (cases "status n2 \<in> set [Completed, Cancelled]")
  case True
  with staff_update_after_terminal [OF assms True, of dev v]
    kitchen_update_after_terminal [OF assms True, of dev v]
  show ?thesis by blast
next
  case False
  have s: "staff_onOrderChange dev (UPDATE n1) (staff_onOrderChange dev (UPDATE n2) v) =
           staff_onOrderChange dev (UPDATE n1) v"
    using assms False by (rule staff_update_overwrites)
  have k: "kitchen_onOrderChange dev (UPDATE n1) (kitchen_onOrderChange dev (UPDATE n2) v) =
           kitchen_onOrderChange dev (UPDATE n1) v"
    using assms False by (rule kitchen_update_overwrites)
  show ?thesis
    unfolding s k
    using False staff_update_holds_payload [of n1 _ dev v]
      kitchen_update_holds_payload [of _ dev n1 v]
      staff_update_keeps_entry [of n1 v dev] kitchen_update_keeps_entry [of n1 v dev]
    by blast
qed

theorem C1_update_last_arrival_wins_witness:
  "order_id (order_at Confirmed 1) = order_id (order_at Preparing 2) \<and>
   status (order_at Preparing 2) \<notin> set [Completed, Cancelled] \<and>
   staff_onOrderChange dev0 (UPDATE (order_at Confirmed 1))
     (staff_onOrderChange dev0 (UPDATE (order_at Preparing 2)) view0) =
   staff_onOrderChange dev0 (UPDATE (order_at Confirmed 1)) view0 \<and>
   kitchen_onOrderChange dev0 (UPDATE (order_at Confirmed 1))
     (kitchen_onOrderChange dev0 (UPDATE (order_at Preparing 2)) view0) =
   kitchen_onOrderChange dev0 (UPDATE (order_at Confirmed 1)) view0 \<and>
   status (order_at Confirmed 1) \<notin> set [Completed, Cancelled] \<and>
   order_id (order_at Confirmed 1) \<in> order_id ` set (orders view0) \<and>
   order_at Confirmed 1 \<in> set (orders (staff_onOrderChange dev0 (UPDATE (order_at Confirmed 1))
     (staff_onOrderChange dev0 (UPDATE (order_at Preparing 2)) view0))) \<and>
   order_at Confirmed 1 \<in> set (orders (kitchen_onOrderChange dev0 (UPDATE (order_at Confirmed 1))
     (kitchen_onOrderChange dev0 (UPDATE (order_at Preparing 2)) view0))) \<and>
   order_id (order_at Preparing 2) = order_id (order_at Completed 3) \<and>
   status (order_at Completed 3) \<in> set [Completed, Cancelled] \<and>
   staff_onOrderChange dev0 (UPDATE (order_at Preparing 2))
     (staff_onOrderChange dev0 (UPDATE (order_at Completed 3)) view0) =
   staff_onOrderChange dev0 (UPDATE (order_at Completed 3)) view0"
proof -
  have h1: "order_id (order_at Confirmed 1) = order_id (order_at Preparing 2)"
    by (simp add: order_at_def)
  have h2: "status (order_at Preparing 2) \<notin> set [Completed, Cancelled]"
    by (simp add: order_at_def)
  have h3: "status (order_at Confirmed 1) \<notin> set [Completed, Cancelled]"
    by (simp add: order_at_def)
  have h4: "order_id (order_at Confirmed 1) \<in> order_id ` set (orders view0)"
    by (simp add: order_at_def view0_def)
  have h5: "order_id (order_at Preparing 2) = order_id (order_at Completed 3)"
    by (simp add: order_at_def)
  have h6: "status (order_at Completed 3) \<in> set [Completed, Cancelled]"
    by (simp add: order_at_def)
  from C1_update_last_arrival_wins [OF h1, of dev0 view0]
    C1_update_last_arrival_wins [OF h5, of dev0 view0] h1 h2 h3 h4 h5 h6
  show ?thesis by blast
qed

text \<open>
  C1 as stated fails: the held copy and the event T2 (\<open>updated_at = 2\<close>, preparing) are
  overwritten by the older event T1 (\<open>updated_at = 1\<close>, confirmed) that arrives after it.
\<close>

theorem C1_stale_update_counterexample:
  "updated_at (order_at Confirmed 1) < updated_at (order_at Preparing 2) \<and>
   orders (staff_onOrderChange dev0 (UPDATE (order_at Confirmed 1))
             (staff_onOrderChange dev0 (UPDATE (order_at Preparing 2)) view0)) =
     [order_at Confirmed 1] \<and>
   orders (kitchen_onOrderChange dev0 (UPDATE (order_at Confirmed 1))
             (kitchen_onOrderChange dev0 (UPDATE (order_at Preparing 2)) view0)) =
     [order_at Confirmed 1] \<and>
   [order_at Confirmed 1] \<noteq> [order_at Preparing 2]"
  by (simp add: order_at_def view0_def)

text \<open>
  C2 (as the code has it). Update and delete events are idempotent on both screens:
  applying one twice gives the view that applying it once gives. An insert event is
  not: it puts its payload in front of the list whether or not that order id is
  already held, so a repeated insert leaves two entries.
\<close>

theorem C2_update_delete_idempotent_insert_prepends:
  "staff_onOrderChange dev (UPDATE n) (staff_onOrderChange dev (UPDATE n) v) =
     staff_onOrderChange dev (UPDATE n) v \<and>
   kitchen_onOrderChange dev (UPDATE n) (kitchen_onOrderChange dev (UPDATE n) v) =
     kitchen_onOrderChange dev (UPDATE n) v \<and>
   staff_onOrderChange dev (DELETE i) (staff_onOrderChange dev (DELETE i) v) =
     staff_onOrderChange dev (DELETE i) v \<and>
   kitchen_onOrderChange dev (DELETE i) (kitchen_onOrderChange dev (DELETE i) v) =
     kitchen_onOrderChange dev (DELETE i) v \<and>
   orders (staff_onOrderChange dev (INSERT n) v) = n # orders v \<and>
   orders (kitchen_onOrderChange dev (INSERT n) v) = n # orders v"
proof -
  have "staff_onOrderChange dev (DELETE i) (staff_onOrderChange dev (DELETE i) v) =
        staff_onOrderChange dev (DELETE i) v"
    by simp
  moreover
  have "kitchen_onOrderChange dev (DELETE i) (kitchen_onOrderChange dev (DELETE i) v) =
        kitchen_onOrderChange dev (DELETE i) v"
    by simp
  moreover have "orders (staff_onOrderChange dev (INSERT n) v) = n # orders v"
    by simp
  moreover have "orders (kitchen_onOrderChange dev (INSERT n) v) = n # orders v"
    by simp
  ultimately show ?thesis
    using staff_update_idem [of dev n v] kitchen_update_idem [of dev n v] by blast
qed

theorem C2_update_delete_idempotent_insert_prepends_witness:
  "staff_onOrderChange dev0 (UPDATE (order_at Ready 3))
     (staff_onOrderChange dev0 (UPDATE (order_at Ready 3)) view0) =
   staff_onOrderChange dev0 (UPDATE (order_at Ready 3)) view0 \<and>
   orders (kitchen_onOrderChange dev0 (INSERT (order_at Ready 3)) view0) =
   [order_at Ready 3, order_at Pending 0]"
  using C2_update_delete_idempotent_insert_prepends [of dev0 "order_at Ready 3" view0 "''o1''"]
  by (simp add: view0_def)

text \<open>
  C2 as stated fails: the same insert event applied twice leaves two entries for the
  order, where applying it once leaves one.
\<close>

theorem C2_duplicate_insert_counterexample:
  "orders (staff_onOrderChange dev0 (INSERT (order_at Pending 0)) empty_view) =
     [order_at Pending 0] \<and>
   orders (staff_onOrderChange dev0 (INSERT (order_at Pending 0))
             (staff_onOrderChange dev0 (INSERT (order_at Pending 0)) empty_view)) =
     [order_at Pending 0, order_at Pending 0] \<and>
   orders (kitchen_onOrderChange dev0 (INSERT (order_at Pending 0))
             (kitchen_onOrderChange dev0 (INSERT (order_at Pending 0)) empty_view)) =
     [order_at Pending 0, order_at Pending 0] \<and>
   staff_onOrderChange dev0 (INSERT (order_at Pending 0))
     (staff_onOrderChange dev0 (INSERT (order_at Pending 0)) empty_view) \<noteq>
   staff_onOrderChange dev0 (INSERT (order_at Pending 0)) empty_view"
  by (simp add: empty_view_def)

text \<open>
  C3 (as the code has it). The alert is tied to the insert event, not to the order id:
  every insert event calls \<^verbatim>\<open>playNotification\<close> once, whatever the view holds, so
  two duplicate insert events for one order fire the new-order pattern twice. Update
  and delete events fire nothing.
\<close>

theorem C3_alert_once_per_insert_event:
  "alerts (staff_onOrderChange dev (INSERT n) v) =
     alerts v @ [(OrderAlert, staff_playNotification dev OrderAlert)] \<and>
   alerts (kitchen_onOrderChange dev (INSERT n) v) =
     alerts v @ [(OrderAlert, kitchen_playNotification dev)] \<and>
   alerts (staff_onOrderChange dev (INSERT n) (staff_onOrderChange dev (INSERT n) v)) =
     alerts v @ [(OrderAlert, staff_playNotification dev OrderAlert),
                 (OrderAlert, staff_playNotification dev OrderAlert)] \<and>
   alerts (kitchen_onOrderChange dev (INSERT n) (kitchen_onOrderChange dev (INSERT n) v)) =
     alerts v @ [(OrderAlert, kitchen_playNotification dev),
                 (OrderAlert, kitchen_playNotification dev)] \<and>
   alerts (staff_onOrderChange dev (UPDATE n) v) = alerts v \<and>
   alerts (kitchen_onOrderChange dev (UPDATE n) v) = alerts v \<and>
   alerts (staff_onOrderChange dev (DELETE i) v) = alerts v \<and>
   alerts (kitchen_onOrderChange dev (DELETE i) v) = alerts v"
  by simp

theorem C3_alert_once_per_insert_event_witness:
  "alerts (staff_onOrderChange dev0 (INSERT (order_at Pending 0)) empty_view) =
     [(OrderAlert, [Tone 800, Tone 1000, Vibrate [200, 100, 200]])] \<and>
   alerts (kitchen_onOrderChange dev0 (INSERT (order_at Pending 0)) empty_view) =
     [(OrderAlert, [Tone 800, Tone 1000, Vibrate [200, 100, 200]])]"
  using C3_alert_once_per_insert_event [of dev0 "order_at Pending 0" empty_view "''o1''"]
  by (simp add: empty_view_def dev0_def staff_playNotification_def
      staff_playWebAudioNotification_def kitchen_playNotification_def
      kitchen_playWebAudioNotification_def)

text \<open>
  C3 as stated fails: two duplicate insert events for the new order \<open>o1\<close> fire the
  new-order alert twice on each screen.
\<close>

theorem C3_duplicate_insert_alert_counterexample:
  "length (alerts (staff_onOrderChange dev0 (INSERT (order_at Pending 0))
             (staff_onOrderChange dev0 (INSERT (order_at Pending 0)) empty_view))) = 2 \<and>
   length (alerts (kitchen_onOrderChange dev0 (INSERT (order_at Pending 0))
             (kitchen_onOrderChange dev0 (INSERT (order_at Pending 0)) empty_view))) = 2 \<and>
   length (alerts (staff_onOrderChange dev0 (INSERT (order_at Pending 0))
             (staff_onOrderChange dev0 (INSERT (order_at Pending 0)) empty_view))) \<noteq> 1"
  by (simp add: empty_view_def)

text \<open>
  C5. An order whose status becomes completed or cancelled leaves the active-orders
  view of the staff screen and of the kitchen display: after an update event with a
  terminal status, and after a local \<^verbatim>\<open>updateOrderStatus\<close> to a terminal status that
  the server accepted, no entry of the view has that order id. The order-status page
  still shows the order when the server returns it for this id: \<^verbatim>\<open>fetchOrder\<close> stores
  whatever order the answer carries, terminal or not, and sets no error.
\<close>

theorem C5_terminal_orders_leave_active_views:
  assumes "status n \<in> set [Completed, Cancelled]"
  shows "order_id n \<notin> order_id ` set (orders (staff_onOrderChange dev (UPDATE n) v)) \<and>
         order_id n \<notin> order_id ` set (orders (kitchen_onOrderChange dev (UPDATE n) v)) \<and>
         order_id n \<notin> order_id `
           set (orders (staff_updateOrderStatus HttpOk (order_id n) (status n) v)) \<and>
         order_id n \<notin> order_id `
           set (orders (kitchen_updateOrderStatus HttpOk (order_id n) (status n) v)) \<and>
         sp_order (fetchOrder now (RespJson True n) p) = Some n \<and>
         sp_error (fetchOrder now (RespJson True n) p) = sp_error p"
proof -
  have a: "order_id n \<notin> order_id ` set (orders (staff_onOrderChange dev (UPDATE n) v))"
    using assms by auto
  have b: "order_id n \<notin> order_id ` set (orders (kitchen_onOrderChange dev (UPDATE n) v))"
    using assms by auto
  have c: "order_id n \<notin> order_id `
             set (orders (staff_updateOrderStatus HttpOk (order_id n) (status n) v))"
    using assms by (auto simp: staff_updateOrderStatus_def)
  have d: "order_id n \<notin> order_id `
             set (orders (kitchen_updateOrderStatus HttpOk (order_id n) (status n) v))"
    using assms by (auto simp: kitchen_updateOrderStatus_def)
  have e: "sp_order (fetchOrder now (RespJson True n) p) = Some n"
    using assms by (auto simp: fetchOrder_def calculateEstimatedTime_def)
  have f: "sp_error (fetchOrder now (RespJson True n) p) = sp_error p"
    using assms by (auto simp: fetchOrder_def calculateEstimatedTime_def)
  from a b c d e f show ?thesis by blast
qed

theorem C5_terminal_orders_leave_active_views_witness:
  "status (order_at Completed 4) \<in> set [Completed, Cancelled] \<and>
   orders (staff_onOrderChange dev0 (UPDATE (order_at Completed 4)) view0) = [] \<and>
   order_id (order_at Completed 4) \<notin>
     order_id ` set (orders (kitchen_onOrderChange dev0 (UPDATE (order_at Completed 4)) view0)) \<and>
   sp_order (fetchOrder 0 (RespJson True (order_at Completed 4)) page0) =
     Some (order_at Completed 4)"
proof -
  have h: "status (order_at Completed 4) \<in> set [Completed, Cancelled]"
    by (simp add: order_at_def)
  have "orders (staff_onOrderChange dev0 (UPDATE (order_at Completed 4)) view0) = []"
    by (simp add: order_at_def view0_def)
  with C5_terminal_orders_leave_active_views [OF h, of dev0 view0 0 page0] h show ?thesis
    by blast
qed

section \<open>Properties of the menu page and of the status buttons\<close>

text \<open>
  C4 (as the code has it). The kitchen display offers, for each status, exactly the one
  forward step of the chain pending, confirmed, preparing, ready, completed, and
  nothing for a terminal status; every transition it requests is an edge of the
  graph. The staff screen offers one action on every order that is not completed:
  a request for completed, whatever the status. Neither screen requests cancelled.
\<close>

theorem C4_action_surfaces:
  "kitchen_actions s = (case forward_step s of None \<Rightarrow> [] | Some t \<Rightarrow> [t]) \<and>
   (\<forall>t \<in> set (kitchen_actions s). graph_edge s t) \<and>
   staff_actions s = (if s = Completed then [] else [Completed]) \<and>
   Cancelled \<notin> set (kitchen_actions s) \<and> Cancelled \<notin> set (staff_actions s)"
  by (cases s) (simp_all add: kitchen_actions_def staff_actions_def forward_step_def graph_edge_def)

theorem C4_action_surfaces_witness:
  "kitchen_actions Pending = [Confirmed] \<and> graph_edge Pending Confirmed \<and>
   Ready \<notin> set (kitchen_actions Pending) \<and> staff_actions Ready = [Completed]"
  using C4_action_surfaces [of Pending] C4_action_surfaces [of Ready]
  by (simp add: forward_step_def)

text \<open>
  C4 as stated fails on the staff screen: for a pending order its button requests
  completed, which is no edge of the graph and no single forward step.
\<close>

theorem C4_staff_jump_counterexample:
  "staff_actions Pending = [Completed] \<and> \<not> graph_edge Pending Completed \<and>
   forward_step Pending \<noteq> Some Completed"
  by (simp add: staff_actions_def graph_edge_def forward_step_def)






















text \<open>
  C10. \<^verbatim>\<open>addToCart\<close> appends one new line with quantity 1 for the dish, whatever
  the cart holds. \<^verbatim>\<open>updateQuantity\<close> changes the quantity of every line with the
  given menu id and of no other line, and \<^verbatim>\<open>removeFromCart\<close> removes every line
  with that menu id: the selected meat, the add-ons and the notes of a line play no
  part.
\<close>

theorem C10_cart_keyed_by_menu_id:
  "(\<exists>c. cart (addToCart ar menu selMeat selAddOns nts st) = cart st @ [c] \<and>
        quantity c = 1 \<and> menu_id c = m_menu_id menu \<and> selectedMeat c = selMeat \<and>
        selectedAddOns c = selAddOns \<and> notes_item c = nts) \<and>
   length (cart (updateQuantity menuId delta st)) = length (cart st) \<and>
   (\<forall>k < length (cart st).
      cart (updateQuantity menuId delta st) ! k =
        (if menu_id (cart st ! k) = menuId
         then (cart st ! k)\<lparr>quantity := max 1 (quantity (cart st ! k) + delta)\<rparr>
         else cart st ! k)) \<and>
   cart (removeFromCart menuId st) = filter (\<lambda>item. menu_id item \<noteq> menuId) (cart st) \<and>
   (\<forall>c \<in> set (cart (removeFromCart menuId st)). menu_id c \<noteq> menuId)"
proof -
  have a: "\<exists>c. cart (addToCart ar menu selMeat selAddOns nts st) = cart st @ [c] \<and>
        quantity c = 1 \<and> menu_id c = m_menu_id menu \<and> selectedMeat c = selMeat \<and>
        selectedAddOns c = selAddOns \<and> notes_item c = nts"
    by (simp add: addToCart_def Let_def)
  have b: "length (cart (updateQuantity menuId delta st)) = length (cart st)"
    by (simp add: updateQuantity_def)
  have c: "\<forall>k < length (cart st).
      cart (updateQuantity menuId delta st) ! k =
        (if menu_id (cart st ! k) = menuId
         then (cart st ! k)\<lparr>quantity := max 1 (quantity (cart st ! k) + delta)\<rparr>
         else cart st ! k)"
    by (simp add: updateQuantity_def)
  have d: "cart (removeFromCart menuId st) = filter (\<lambda>item. menu_id item \<noteq> menuId) (cart st)"
    by (simp add: removeFromCart_def)
  have e: "\<forall>c \<in> set (cart (removeFromCart menuId st)). menu_id c \<noteq> menuId"
    by (simp add: removeFromCart_def)
  from a b c d e show ?thesis by blast
qed

theorem C10_cart_keyed_by_menu_id_witness:
  "map menu_id (cart (addToCart ar0 menu_m1 (Some ''Beef'') None None page_dinein)) =
     [''m1'', ''m1'', ''m1''] \<and>
   map quantity (cart (updateQuantity ''m1'' 1 page_dinein)) = [2, 3] \<and>
   map selectedMeat (cart (updateQuantity ''m1'' 1 page_dinein)) =
     [Some ''Chicken'', Some ''Prawn''] \<and>
   cart (removeFromCart ''m1'' page_dinein) = []"
proof -
  have l: "(0::nat) < length (cart page_dinein) \<and> 1 < length (cart page_dinein)"
    by (simp add: page_dinein_def)
  from C10_cart_keyed_by_menu_id [of ar0 menu_m1 "Some ''Beef''" None None page_dinein
      "''m1''" 1]
  show ?thesis
    by (simp add: page_dinein_def line_a_def line_b_def menu_m1_def addToCart_def Let_def
        updateQuantity_def)
qed


section \<open>Properties of service requests and of the session\<close>

text \<open>
  C8 (as the code has it). The update that \<^verbatim>\<open>updateRequestStatus\<close> sends for a
  transition to acknowledged carries the staff id of the session as
  \<open>acknowledged_by\<close> and a timestamp as \<open>acknowledged_at\<close>. The update for a
  transition to completed carries a timestamp as \<open>completed_at\<close> and no identity of
  the actor: \<open>acknowledged_by\<close> is left out, and the update has no other field for a
  person. Every update carries \<open>updated_at\<close>.
\<close>

theorem C8_request_update_stamps:
  "acknowledged_by (request_update_of (Some s) Acknowledged stamp now) = Some (staffId s) \<and>
   acknowledged_at (request_update_of (Some s) Acknowledged stamp now) = Some stamp \<and>
   completed_at (request_update_of (Some s) Acknowledged stamp now) = None \<and>
   completed_at (request_update_of sess ReqCompleted stamp now) = Some stamp \<and>
   acknowledged_by (request_update_of sess ReqCompleted stamp now) = None \<and>
   acknowledged_at (request_update_of sess ReqCompleted stamp now) = None \<and>
   upd_updated_at (request_update_of sess newStatus stamp now) = now \<and>
   fst (updateRequestStatus sess stamp now result requestId newStatus reqs) =
     (requestId, request_update_of sess newStatus stamp now)"
  by (simp add: request_update_of_def updateRequestStatus_def)

theorem C8_request_update_stamps_witness:
  "fst (updateRequestStatus (Some sess0) 5 6 DbOk ''q1'' Acknowledged []) =
     (''q1'', \<lparr>upd_status = Acknowledged, acknowledged_by = Some ''s1'',
               acknowledged_at = Some 5, completed_at = None, upd_updated_at = 6\<rparr>)"
  using C8_request_update_stamps [of sess0 5 6 "Some sess0" Acknowledged DbOk "''q1''" "[]"]
  by (simp add: request_update_of_def sess0_def)

text \<open>
  C8 as stated fails for completed: the update that the staff member \<open>s1\<close> sends to
  complete the request \<open>q1\<close> holds the status and two timestamps, and no staff id.
\<close>

theorem C8_completed_no_actor_counterexample:
  "fst (updateRequestStatus (Some sess0) 5 6 DbOk ''q1'' ReqCompleted []) =
     (''q1'', \<lparr>upd_status = ReqCompleted, acknowledged_by = None,
               acknowledged_at = None, completed_at = Some 5, upd_updated_at = 6\<rparr>)"
  by (simp add: request_update_of_def updateRequestStatus_def)

text \<open>
  C9 (as the code has it). A session made at login expires 8 hours later. The screens
  read the expiry once, when they are mounted: a session that has expired by then is
  removed from the storage, the screen leaves for the login route and, with no session
  in its state, applies no event. A session that has not expired when the screen is
  mounted is kept, and from then on every event is applied to the view whatever the
  time of its arrival, with no change of route.
\<close>

theorem C9_session_expiry_checked_on_mount:
  "(handlePinSubmit now sel pin response = Some (s, r) \<longrightarrow>
      expires s = now + 8 * 60 * 60 * 1000) \<and>
   (stored_session pg = Some s \<and> session pg = None \<and> expires s < now \<longrightarrow>
      route (checkSession now pg) = LoginRoute \<and>
      stored_session (checkSession now pg) = None \<and>
      session (checkSession now pg) = None \<and>
      staff_page_event dev t ev (checkSession now pg) = checkSession now pg \<and>
      kitchen_page_event dev t ev (checkSession now pg) = checkSession now pg) \<and>
   (stored_session pg = Some s \<and> \<not> expires s < now \<and> sess_restaurantId s \<noteq> [] \<longrightarrow>
      session (checkSession now pg) = Some s \<and>
      route (checkSession now pg) = route pg \<and>
      view (staff_page_event dev t ev (checkSession now pg)) =
        staff_onOrderChange dev ev (view pg) \<and>
      view (kitchen_page_event dev t ev (checkSession now pg)) =
        kitchen_onOrderChange dev ev (view pg) \<and>
      route (staff_page_event dev t ev (checkSession now pg)) = route pg \<and>
      route (kitchen_page_event dev t ev (checkSession now pg)) = route pg)"
proof -
  have a: "handlePinSubmit now sel pin response = Some (s, r) \<longrightarrow>
      expires s = now + 8 * 60 * 60 * 1000"
    by (auto simp: handlePinSubmit_def split: if_splits verify_response.splits option.splits)
  have b: "stored_session pg = Some s \<and> session pg = None \<and> expires s < now \<longrightarrow>
      route (checkSession now pg) = LoginRoute \<and>
      stored_session (checkSession now pg) = None \<and>
      session (checkSession now pg) = None \<and>
      staff_page_event dev t ev (checkSession now pg) = checkSession now pg \<and>
      kitchen_page_event dev t ev (checkSession now pg) = checkSession now pg"
    by (simp add: checkSession_def staff_page_event_def kitchen_page_event_def subscribed_def)
  have c: "stored_session pg = Some s \<and> \<not> expires s < now \<and> sess_restaurantId s \<noteq> [] \<longrightarrow>
      session (checkSession now pg) = Some s \<and>
      route (checkSession now pg) = route pg \<and>
      view (staff_page_event dev t ev (checkSession now pg)) =
        staff_onOrderChange dev ev (view pg) \<and>
      view (kitchen_page_event dev t ev (checkSession now pg)) =
        kitchen_onOrderChange dev ev (view pg) \<and>
      route (staff_page_event dev t ev (checkSession now pg)) = route pg \<and>
      route (kitchen_page_event dev t ev (checkSession now pg)) = route pg"
    by (simp add: checkSession_def staff_page_event_def kitchen_page_event_def subscribed_def)
  from a b c show ?thesis by blast
qed

theorem C9_session_expiry_checked_on_mount_witness:
  "map_option (\<lambda>(s, r). (expires s, r))
     (handlePinSubmit 1000 sel0 ''123456'' (VerifyJson True (Some staff0))) =
     Some (28801000, KitchenRoute) \<and>
   stored_session pg0 = Some sess0 \<and> session pg0 = None \<and> expires sess0 < 101 \<and>
   route (checkSession 101 pg0) = LoginRoute \<and>
   staff_page_event dev0 102 (INSERT (order_at Pending 0)) (checkSession 101 pg0) =
     checkSession 101 pg0 \<and>
   \<not> expires sess0 < 100 \<and> sess_restaurantId sess0 \<noteq> [] \<and>
   session (checkSession 100 pg0) = Some sess0 \<and>
   view (staff_page_event dev0 100 (DELETE ''o1'') (checkSession 100 pg0)) =
     staff_onOrderChange dev0 (DELETE ''o1'') (view pg0)"
proof -
  have p: "handlePinSubmit 1000 sel0 ''123456'' (VerifyJson True (Some staff0)) =
           Some (the (handlePinSubmit 1000 sel0 ''123456'' (VerifyJson True (Some staff0))))"
    by (simp add: handlePinSubmit_def)
  have h1: "stored_session pg0 = Some sess0 \<and> session pg0 = None \<and> expires sess0 < 101"
    by (simp add: pg0_def sess0_def)
  have h2: "stored_session pg0 = Some sess0 \<and> \<not> expires sess0 < 100 \<and>
            sess_restaurantId sess0 \<noteq> []"
    by (simp add: pg0_def sess0_def)
  have r: "snd (the (handlePinSubmit 1000 sel0 ''123456'' (VerifyJson True (Some staff0)))) =
           KitchenRoute"
    by (simp add: handlePinSubmit_def staff0_def)
  obtain s0 r0 where sr: "handlePinSubmit 1000 sel0 ''123456'' (VerifyJson True (Some staff0)) =
    Some (s0, r0)" using p by (metis surj_pair)
  from C9_session_expiry_checked_on_mount [of 1000 sel0 "''123456''"
      "VerifyJson True (Some staff0)" s0 r0] sr
  have e: "expires s0 = 28801000" by simp
  from r sr have r0: "r0 = KitchenRoute" by simp
  from C9_session_expiry_checked_on_mount [of 101 sel0 "[]" VerifyThrew sess0 LoginRoute pg0
      dev0 102 "INSERT (order_at Pending 0)"] h1
  have x: "route (checkSession 101 pg0) = LoginRoute \<and>
     staff_page_event dev0 102 (INSERT (order_at Pending 0)) (checkSession 101 pg0) =
     checkSession 101 pg0" by blast
  from C9_session_expiry_checked_on_mount [of 100 sel0 "[]" VerifyThrew sess0 LoginRoute pg0
      dev0 100 "DELETE ''o1''"] h2
  have y: "session (checkSession 100 pg0) = Some sess0 \<and>
   view (staff_page_event dev0 100 (DELETE ''o1'') (checkSession 100 pg0)) =
     staff_onOrderChange dev0 (DELETE ''o1'') (view pg0)" by blast
  from e r0 sr h1 h2 x y show ?thesis by simp
qed

text \<open>
  C9 as stated fails: the session expires at 100, the screen is mounted at 50, and an
  insert event that arrives at 200 is applied to the view of either screen; the
  route stays the orders screen.
\<close>

theorem C9_event_after_expiry_counterexample:
  "expires sess0 < 200 \<and>
   orders (view (checkSession 50 pg0)) = [] \<and>
   orders (view (staff_page_event dev0 200 (INSERT (order_at Pending 0)) (checkSession 50 pg0))) =
     [order_at Pending 0] \<and>
   orders (view (kitchen_page_event dev0 200 (INSERT (order_at Pending 0))
                   (checkSession 50 pg0))) = [order_at Pending 0] \<and>
   route (staff_page_event dev0 200 (INSERT (order_at Pending 0)) (checkSession 50 pg0)) =
     OrdersRoute"
  by (simp add: staff_page_event_def kitchen_page_event_def checkSession_def subscribed_def
      pg0_def sess0_def empty_view_def)

end
